theory Spec2Isabelle
  imports Main "HOL-Library.Word"
begin

section \<open>Values shared by the security core\<close>

text \<open>
  A \<open>Date\<close> is its number of milliseconds since the epoch. The values of a
  \<open>Record<string, any>\<close> that the core builds are strings, numbers, booleans and
  dates; a metadata object is the list of its properties in the order written.
  The columns that the source renders with \<open>toISOString\<close> and \<open>JSON.stringify\<close>
  hold the rendered value itself.
\<close>

type_synonym timestamp = int

datatype json = JString string | JNumber int | JBool bool | JDate timestamp

type_synonym metadata = "(string \<times> json) list"

text \<open>
  What a rejected promise carries: the error the sqlite3 driver hands to the
  callback of \<open>runQuery\<close>, an \<open>Error\<close> thrown by the core with its message, and
  the \<open>RangeError\<close> of the crypto module.
\<close>

datatype error = SqliteError string | Error string | RangeError string

text \<open>
  What one call reads from its environment: the clock (\<open>new Date()\<close>,
  \<open>CURRENT_TIMESTAMP\<close>; all readings within one call are the same instant), the
  sixteen random bytes of \<open>generateSecureId\<close> in hex, and the error, if any, that
  the driver reports for the statement the call runs. Each operation below runs at
  most one statement. What the \<open>Logger\<close> prints is not part of the state.
\<close>

record call_env =
  now :: timestamp
  secureId :: string
  driver_err :: "string option"

section \<open>AuditManager\<close>

datatype audit_result = SUCCESS | FAILURE | PENDING

datatype event_type = AUTHENTICATION | AUTHORIZATION | DATA_ACCESS | AI_ACTION | SECURITY_VIOLATION

datatype severity = LOW | MEDIUM | HIGH | CRITICAL

text \<open>\<open>Omit<AuditEvent, 'id' | 'hash'>\<close>, and \<open>AuditEvent\<close> extending it.\<close>

record AuditEventData =
  ae_timestamp :: timestamp
  ae_userId :: string
  ae_action :: string
  ae_resource :: string
  ae_result :: audit_result
  ae_ipAddress :: "string option"
  ae_userAgent :: "string option"
  ae_metadata :: "metadata option"

record AuditEvent = AuditEventData +
  ae_id :: string
  ae_hash :: string

text \<open>\<open>Omit<SecurityEvent, 'id'>\<close>, and \<open>SecurityEvent\<close> extending it.\<close>

record SecurityEventData =
  se_timestamp :: timestamp
  se_eventType :: event_type
  se_severity :: severity
  se_description :: string
  se_userId :: string
  se_ipAddress :: "string option"
  se_metadata :: "metadata option"

record SecurityEvent = SecurityEventData +
  se_id :: string

text \<open>A row of table \<open>ai_actions\<close>, with the defaults of its \<open>CREATE TABLE\<close>.\<close>

record AIActionRow =
  ai_id :: string
  ai_timestamp :: timestamp
  ai_userId :: string
  ai_action :: string
  approval_required :: bool
  approved_by :: "string option"
  approved_at :: "timestamp option"
  executed :: bool
  executed_at :: "timestamp option"
  ai_metadata :: "metadata option"
  ai_hash :: string

text \<open>The three tables, each the list of its rows in insertion order.\<close>

record Database =
  audit_events :: "AuditEvent list"
  security_events :: "SecurityEvent list"
  ai_actions :: "AIActionRow list"

text \<open>
  \<open>generateHash\<close> is \<open>createHmac('sha256', key).update(JSON.stringify(data)).digest('hex')\<close>.
  The HMAC of the serialised event belongs to the crypto module; the manager holds
  it as the function \<open>hmac_sha256\<close> of the key and the event.
\<close>

record AuditManager =
  db :: Database
  encryptionKey :: string
  hmac_sha256 :: "string \<Rightarrow> AuditEventData \<Rightarrow> string"

definition generateHash :: "AuditManager \<Rightarrow> AuditEventData \<Rightarrow> string" where
  "generateHash am data = hmac_sha256 am (encryptionKey am) data"

text \<open>
  \<open>runQuery\<close> on the two \<open>INSERT\<close> statements: the promise is rejected with the
  driver's error, or because column \<open>id\<close> is the primary key and the id is taken;
  otherwise the row is appended.
\<close>

definition insert_audit_event :: "call_env \<Rightarrow> Database \<Rightarrow> AuditEvent \<Rightarrow> error + Database" where
  "insert_audit_event io d e =
     (case driver_err io of
        Some m \<Rightarrow> Inl (SqliteError m)
      | None \<Rightarrow>
          if ae_id e \<in> set (map ae_id (audit_events d))
          then Inl (SqliteError ''SQLITE_CONSTRAINT: UNIQUE constraint failed: audit_events.id'')
          else Inr (d\<lparr>audit_events := audit_events d @ [e]\<rparr>))"

definition insert_security_event :: "call_env \<Rightarrow> Database \<Rightarrow> SecurityEvent \<Rightarrow> error + Database" where
  "insert_security_event io d e =
     (case driver_err io of
        Some m \<Rightarrow> Inl (SqliteError m)
      | None \<Rightarrow>
          if se_id e \<in> set (map se_id (security_events d))
          then Inl (SqliteError ''SQLITE_CONSTRAINT: UNIQUE constraint failed: security_events.id'')
          else Inr (d\<lparr>security_events := security_events d @ [e]\<rparr>))"

text \<open>
  Every operation returns the manager it leaves behind and either the error of
  the rejected promise or the value of the fulfilled one.
\<close>

definition auditEvent_of :: "AuditManager \<Rightarrow> call_env \<Rightarrow> AuditEventData \<Rightarrow> AuditEvent" where
  "auditEvent_of am io event =
     \<lparr>ae_timestamp = ae_timestamp event, ae_userId = ae_userId event,
      ae_action = ae_action event, ae_resource = ae_resource event,
      ae_result = ae_result event, ae_ipAddress = ae_ipAddress event,
      ae_userAgent = ae_userAgent event, ae_metadata = ae_metadata event,
      ae_id = secureId io, ae_hash = generateHash am event\<rparr>"

definition logAuditEvent :: "call_env \<Rightarrow> AuditManager \<Rightarrow> AuditEventData \<Rightarrow> AuditManager \<times> (error + string)" where
  "logAuditEvent io am event =
     (case insert_audit_event io (db am) (auditEvent_of am io event) of
        Inl e \<Rightarrow> (am, Inl e)
      | Inr d \<Rightarrow> (am\<lparr>db := d\<rparr>, Inr (secureId io)))"

definition securityEvent_of :: "call_env \<Rightarrow> SecurityEventData \<Rightarrow> SecurityEvent" where
  "securityEvent_of io event =
     \<lparr>se_timestamp = se_timestamp event, se_eventType = se_eventType event,
      se_severity = se_severity event, se_description = se_description event,
      se_userId = se_userId event, se_ipAddress = se_ipAddress event,
      se_metadata = se_metadata event, se_id = secureId io\<rparr>"

definition logSecurityEvent :: "call_env \<Rightarrow> AuditManager \<Rightarrow> SecurityEventData \<Rightarrow> AuditManager \<times> (error + string)" where
  "logSecurityEvent io am event =
     (case insert_security_event io (db am) (securityEvent_of io event) of
        Inl e \<Rightarrow> (am, Inl e)
      | Inr d \<Rightarrow> (am\<lparr>db := d\<rparr>, Inr (secureId io)))"

text \<open>
  \<open>approveAIAction\<close>: the \<open>UPDATE ... WHERE id = ?\<close> rewrites the four columns of
  every row with that id and is no error when there is none; then the method
  returns \<open>true\<close>.
\<close>

definition approve_row :: "call_env \<Rightarrow> string \<Rightarrow> string \<Rightarrow> AIActionRow \<Rightarrow> AIActionRow" where
  "approve_row io actionId approvedBy r =
     (if ai_id r = actionId
      then r\<lparr>approved_by := Some approvedBy, approved_at := Some (now io),
             executed := True, executed_at := Some (now io)\<rparr>
      else r)"

definition approveAIAction :: "call_env \<Rightarrow> AuditManager \<Rightarrow> string \<Rightarrow> string \<Rightarrow> AuditManager \<times> (error + bool)" where
  "approveAIAction io am actionId approvedBy =
     (case driver_err io of
        Some m \<Rightarrow> (am, Inl (SqliteError m))
      | None \<Rightarrow>
          (am\<lparr>db := (db am)\<lparr>ai_actions := map (approve_row io actionId approvedBy) (ai_actions (db am))\<rparr>\<rparr>,
           Inr True))"

section \<open>AuthorizationManager\<close>

datatype UserRole = EXECUTIVE | ADMIN | MANAGER | USER | VIEWER

text \<open>The string value of each member of the enum.\<close>

fun role_value :: "UserRole \<Rightarrow> string" where
  "role_value EXECUTIVE = ''executive''"
| "role_value ADMIN = ''admin''"
| "role_value MANAGER = ''manager''"
| "role_value USER = ''user''"
| "role_value VIEWER = ''viewer''"

record Permission =
  perm_resource :: string
  perm_actions :: "string list"
  perm_conditions :: "metadata option"

record User =
  user_id :: string
  username :: string
  email :: string
  role :: UserRole
  permissions :: "Permission list"
  mfaEnabled :: bool
  lastLogin :: "timestamp option"
  isActive :: bool

record AuthorizationResult =
  allowed :: bool
  reason :: "string option"
  requiredApproval :: "bool option"
  auditRequired :: "bool option"

text \<open>
  The manager's own state is the role table; the \<open>AuditManager\<close> it shares with
  the other managers is passed to each operation and returned by it.
\<close>

record AuthorizationManager =
  rolePermissions :: "UserRole \<Rightarrow> Permission list option"

definition perm :: "string \<Rightarrow> string list \<Rightarrow> Permission" where
  "perm r as = \<lparr>perm_resource = r, perm_actions = as, perm_conditions = None\<rparr>"

definition initializeRolePermissions :: "UserRole \<Rightarrow> Permission list option" where
  "initializeRolePermissions =
     Map.empty
      (EXECUTIVE \<mapsto>
         [perm ''*'' [''*''],
          perm ''ai_actions'' [''approve'', ''reject'', ''execute''],
          perm ''security'' [''view'', ''configure'', ''audit''],
          perm ''users'' [''create'', ''read'', ''update'', ''delete'']],
       ADMIN \<mapsto>
         [perm ''users'' [''read'', ''update''],
          perm ''ai_actions'' [''view'', ''approve''],
          perm ''audit'' [''read''],
          perm ''security'' [''view'']],
       MANAGER \<mapsto>
         [perm ''ai_actions'' [''view'', ''request''],
          perm ''users'' [''read''],
          perm ''audit'' [''read'']],
       USER \<mapsto>
         [perm ''ai_actions'' [''view'', ''request''],
          perm ''profile'' [''read'', ''update'']],
       VIEWER \<mapsto>
         [perm ''ai_actions'' [''view''],
          perm ''profile'' [''read'']])"

definition new_AuthorizationManager :: AuthorizationManager where
  "new_AuthorizationManager = \<lparr>rolePermissions = initializeRolePermissions\<rparr>"

text \<open>The \<open>for\<close> loop of \<open>checkPermission\<close>, returning at the first permission that matches.\<close>

fun checkPermission_loop :: "Permission list \<Rightarrow> string \<Rightarrow> string \<Rightarrow> bool" where
  "checkPermission_loop [] resource action = False"
| "checkPermission_loop (p # ps) resource action =
     (if perm_resource p = ''*'' \<and> ''*'' \<in> set (perm_actions p) then True
      else if (perm_resource p = resource \<or> perm_resource p = ''*'')
              \<and> (action \<in> set (perm_actions p) \<or> ''*'' \<in> set (perm_actions p)) then True
      else checkPermission_loop ps resource action)"

definition checkPermission :: "AuthorizationManager \<Rightarrow> UserRole \<Rightarrow> string \<Rightarrow> string \<Rightarrow> bool" where
  "checkPermission mgr r resource action =
     checkPermission_loop (case rolePermissions mgr r of None \<Rightarrow> [] | Some ps \<Rightarrow> ps) resource action"

definition requiresMFA :: "string \<Rightarrow> string \<Rightarrow> bool" where
  "requiresMFA resource action =
     (resource \<in> set [''security'', ''users'', ''ai_actions'']
      \<or> action \<in> set [''delete'', ''execute'', ''approve'', ''configure''])"

definition requiresExecutiveApproval :: "string \<Rightarrow> string \<Rightarrow> bool" where
  "requiresExecutiveApproval resource action =
     (resource \<in> set [''ai_actions'', ''security'', ''users'']
      \<or> action \<in> set [''execute'', ''approve'', ''delete'', ''configure''])"

definition requiresAudit :: "string \<Rightarrow> string \<Rightarrow> bool" where
  "requiresAudit resource action =
     (resource \<in> set [''ai_actions'', ''security'', ''users'', ''audit'']
      \<or> action \<in> set [''create'', ''update'', ''delete'', ''execute'', ''approve''])"

text \<open>
  \<open>toUpperCase\<close> on the letters \<open>a\<close> to \<open>z\<close>. A string here is a list of 8-bit
  characters, so this is the JavaScript function on ASCII text only: a cased
  character outside ASCII, which JavaScript also maps, is kept as it is. The
  result is read nowhere but in the \<open>action\<close> column of the audit event that
  \<open>authorize\<close> writes when it allows.
\<close>

definition upper_char :: "char \<Rightarrow> char" where
  "upper_char c =
     (let n = (of_char c :: nat) in if 97 \<le> n \<and> n \<le> 122 then char_of (n - 32) else c)"

definition toUpperCase :: "string \<Rightarrow> string" where
  "toUpperCase s = map upper_char s"

text \<open>\<open>await p; return v\<close>: the rejection of \<open>p\<close> propagates, its value is dropped.\<close>

definition returning :: "'s \<times> (error + 'a) \<Rightarrow> 'b \<Rightarrow> 's \<times> (error + 'b)" where
  "returning r v = (case r of (s, Inl e) \<Rightarrow> (s, Inl e) | (s, Inr _) \<Rightarrow> (s, Inr v))"

definition authorization_event :: "call_env \<Rightarrow> severity \<Rightarrow> string \<Rightarrow> string \<Rightarrow> metadata \<Rightarrow> SecurityEventData" where
  "authorization_event io sev descr uid md =
     \<lparr>se_timestamp = now io, se_eventType = AUTHORIZATION, se_severity = sev,
      se_description = descr, se_userId = uid, se_ipAddress = None, se_metadata = Some md\<rparr>"

definition deny :: "string \<Rightarrow> AuthorizationResult" where
  "deny why = \<lparr>allowed = False, reason = Some why, requiredApproval = None, auditRequired = None\<rparr>"

text \<open>The body of the \<open>try\<close> block of \<open>authorize\<close>.\<close>

definition authorize_try ::
  "call_env \<Rightarrow> AuthorizationManager \<Rightarrow> AuditManager \<Rightarrow> User \<Rightarrow> string \<Rightarrow> string
   \<Rightarrow> AuditManager \<times> (error + AuthorizationResult)" where
  "authorize_try io mgr am user resource action =
     (if \<not> isActive user then
        returning
          (logSecurityEvent io am
             (authorization_event io HIGH (''Inactive user attempted access: '' @ user_id user) (user_id user)
                [(''resource'', JString resource), (''action'', JString action)]))
          (deny ''User account is inactive'')
      else if requiresMFA resource action \<and> \<not> mfaEnabled user then
        returning
          (logSecurityEvent io am
             (authorization_event io MEDIUM (''MFA required for action: '' @ action @ '' on '' @ resource) (user_id user)
                [(''resource'', JString resource), (''action'', JString action)]))
          (deny ''Multi-factor authentication required'')
      else if \<not> checkPermission mgr (role user) resource action then
        returning
          (logSecurityEvent io am
             (authorization_event io HIGH (''Unauthorized access attempt: '' @ action @ '' on '' @ resource) (user_id user)
                [(''resource'', JString resource), (''action'', JString action),
                 (''role'', JString (role_value (role user)))]))
          (deny ''Insufficient permissions'')
      else if requiresExecutiveApproval resource action \<and> role user \<noteq> EXECUTIVE then
        returning
          (logSecurityEvent io am
             (authorization_event io MEDIUM (''Executive approval required for: '' @ action @ '' on '' @ resource) (user_id user)
                [(''resource'', JString resource), (''action'', JString action)]))
          ((deny ''Executive approval required'')\<lparr>requiredApproval := Some True\<rparr>)
      else
        returning
          (logAuditEvent io am
             \<lparr>ae_timestamp = now io, ae_userId = user_id user,
              ae_action = ''AUTHORIZE_'' @ toUpperCase action, ae_resource = resource,
              ae_result = SUCCESS, ae_ipAddress = None, ae_userAgent = None,
              ae_metadata = Some [(''role'', JString (role_value (role user))),
                                  (''requiresApproval'', JBool (requiresExecutiveApproval resource action))]\<rparr>)
          \<lparr>allowed = True, reason = None, requiredApproval = None,
           auditRequired = Some (requiresAudit resource action)\<rparr>)"

text \<open>\<open>authorize\<close>: the \<open>catch\<close> turns every rejection into a denial. The \<open>context\<close> argument is not read.\<close>

definition authorize ::
  "call_env \<Rightarrow> AuthorizationManager \<Rightarrow> AuditManager \<Rightarrow> User \<Rightarrow> string \<Rightarrow> string \<Rightarrow> metadata option
   \<Rightarrow> AuditManager \<times> AuthorizationResult" where
  "authorize io mgr am user resource action ctx =
     (case authorize_try io mgr am user resource action of
        (am', Inr r) \<Rightarrow> (am', r)
      | (am', Inl e) \<Rightarrow> (am', deny ''Authorization system error''))"

definition updateUserRole ::
  "call_env \<Rightarrow> AuditManager \<Rightarrow> string \<Rightarrow> UserRole \<Rightarrow> string \<Rightarrow> AuditManager \<times> (error + bool)" where
  "updateUserRole io am userId newRole updatedBy =
     (if updatedBy \<noteq> ''executive'' then
        returning
          (logSecurityEvent io am
             (authorization_event io HIGH (''Unauthorized role change attempt: '' @ userId) updatedBy
                [(''targetUserId'', JString userId), (''newRole'', JString (role_value newRole))]))
          False
      else
        returning
          (logAuditEvent io am
             \<lparr>ae_timestamp = now io, ae_userId = updatedBy, ae_action = ''UPDATE_USER_ROLE'',
              ae_resource = ''users'', ae_result = SUCCESS, ae_ipAddress = None, ae_userAgent = None,
              ae_metadata = Some [(''targetUserId'', JString userId),
                                  (''newRole'', JString (role_value newRole))]\<rparr>)
          True)"

section \<open>ComplianceManager\<close>

datatype category = DATA_PROTECTION | ACCESS_CONTROL | AUDIT | ENCRYPTION | RETENTION

datatype requirement_status = COMPLIANT | NON_COMPLIANT | PARTIAL

text \<open>The status of a framework has the fourth value \<open>'PENDING'\<close>.\<close>

datatype framework_status = FW_COMPLIANT | FW_NON_COMPLIANT | FW_PARTIAL | FW_PENDING

fun framework_status_value :: "framework_status \<Rightarrow> string" where
  "framework_status_value FW_COMPLIANT = ''COMPLIANT''"
| "framework_status_value FW_NON_COMPLIANT = ''NON_COMPLIANT''"
| "framework_status_value FW_PARTIAL = ''PARTIAL''"
| "framework_status_value FW_PENDING = ''PENDING''"

datatype deletion_method = SECURE_DELETE | OVERWRITE | CRYPTOGRAPHIC_ERASE

fun deletion_method_value :: "deletion_method \<Rightarrow> string" where
  "deletion_method_value SECURE_DELETE = ''SECURE_DELETE''"
| "deletion_method_value OVERWRITE = ''OVERWRITE''"
| "deletion_method_value CRYPTOGRAPHIC_ERASE = ''CRYPTOGRAPHIC_ERASE''"

record ComplianceRequirement =
  req_id :: string
  req_title :: string
  req_description :: string
  req_category :: category
  req_status :: requirement_status
  evidence :: "string list"
  lastChecked :: timestamp

record ComplianceFramework =
  fw_name :: string
  fw_version :: string
  requirements :: "ComplianceRequirement list"
  lastAssessment :: timestamp
  fw_status :: framework_status

record DataRetentionPolicy =
  dataType :: string
  retentionPeriod :: int
  encryptionRequired :: bool
  deletionMethod :: deletion_method
  policy_auditRequired :: bool

text \<open>
  The \<open>Map\<close> of frameworks by key and the array of retention policies. The
  \<open>AuditManager\<close> is the one shared with the other managers and is passed to each
  operation.
\<close>

record ComplianceManager =
  frameworks :: "string \<rightharpoonup> ComplianceFramework"
  retentionPolicies :: "DataRetentionPolicy list"

definition requirement ::
  "timestamp \<Rightarrow> string \<Rightarrow> string \<Rightarrow> string \<Rightarrow> category \<Rightarrow> string list \<Rightarrow> ComplianceRequirement" where
  "requirement t i title descr c ev =
     \<lparr>req_id = i, req_title = title, req_description = descr, req_category = c,
      req_status = COMPLIANT, evidence = ev, lastChecked = t\<rparr>"

definition soc2Framework :: "timestamp \<Rightarrow> ComplianceFramework" where
  "soc2Framework t =
     \<lparr>fw_name = ''SOC 2 Type II'', fw_version = ''2023'',
      requirements =
        [requirement t ''CC6.1'' ''Logical Access Security''
           ''Implement logical access security software, infrastructure, and architectures over protected information assets''
           ACCESS_CONTROL [''RBAC implementation'', ''MFA enforcement'', ''Access logs''],
         requirement t ''CC6.2'' ''Access Restriction'' ''Restrict access to information assets''
           ACCESS_CONTROL [''Role-based permissions'', ''Executive approval system''],
         requirement t ''CC7.1'' ''System Operations''
           ''Use system operations to detect, monitor, and alert on security events''
           AUDIT [''Real-time monitoring'', ''Security event logging'', ''Audit trails'']],
      lastAssessment = t, fw_status = FW_COMPLIANT\<rparr>"

definition iso27001Framework :: "timestamp \<Rightarrow> ComplianceFramework" where
  "iso27001Framework t =
     \<lparr>fw_name = ''ISO 27001'', fw_version = ''2022'',
      requirements =
        [requirement t ''A.9.1'' ''Access Control Policy'' ''Business requirements for access control''
           ACCESS_CONTROL [''Access control policies'', ''User provisioning procedures''],
         requirement t ''A.10.1'' ''Cryptographic Controls'' ''Policy on the use of cryptographic controls''
           ENCRYPTION [''End-to-end encryption'', ''Key management'', ''HSM integration'']],
      lastAssessment = t, fw_status = FW_COMPLIANT\<rparr>"

definition gdprFramework :: "timestamp \<Rightarrow> ComplianceFramework" where
  "gdprFramework t =
     \<lparr>fw_name = ''GDPR'', fw_version = ''2018'',
      requirements =
        [requirement t ''Art.32'' ''Security of Processing''
           ''Implement appropriate technical and organizational measures''
           DATA_PROTECTION [''Data encryption'', ''Access controls'', ''Audit logging''],
         requirement t ''Art.17'' ''Right to Erasure'' ''Data subject right to have personal data erased''
           RETENTION [''Data deletion procedures'', ''Retention policies'']],
      lastAssessment = t, fw_status = FW_COMPLIANT\<rparr>"

definition initializeComplianceFrameworks :: "timestamp \<Rightarrow> string \<rightharpoonup> ComplianceFramework" where
  "initializeComplianceFrameworks t =
     Map.empty(''SOC2'' \<mapsto> soc2Framework t, ''ISO27001'' \<mapsto> iso27001Framework t, ''GDPR'' \<mapsto> gdprFramework t)"

definition initializeRetentionPolicies :: "DataRetentionPolicy list" where
  "initializeRetentionPolicies =
     [\<lparr>dataType = ''audit_logs'', retentionPeriod = 2555, encryptionRequired = True,
       deletionMethod = SECURE_DELETE, policy_auditRequired = True\<rparr>,
      \<lparr>dataType = ''user_data'', retentionPeriod = 365, encryptionRequired = True,
       deletionMethod = CRYPTOGRAPHIC_ERASE, policy_auditRequired = True\<rparr>,
      \<lparr>dataType = ''ai_actions'', retentionPeriod = 1095, encryptionRequired = True,
       deletionMethod = SECURE_DELETE, policy_auditRequired = True\<rparr>,
      \<lparr>dataType = ''security_events'', retentionPeriod = 2555, encryptionRequired = True,
       deletionMethod = SECURE_DELETE, policy_auditRequired = True\<rparr>]"

text \<open>The constructor, run when the clock reads \<open>t\<close>.\<close>

definition new_ComplianceManager :: "timestamp \<Rightarrow> ComplianceManager" where
  "new_ComplianceManager t =
     \<lparr>frameworks = initializeComplianceFrameworks t, retentionPolicies = initializeRetentionPolicies\<rparr>"

definition checkAccessControlCompliance :: "ComplianceRequirement \<Rightarrow> requirement_status" where
  "checkAccessControlCompliance r =
     (let hasRBAC = ''RBAC implementation'' \<in> set (evidence r);
          hasMFA = ''MFA enforcement'' \<in> set (evidence r);
          hasLogs = ''Access logs'' \<in> set (evidence r)
      in if hasRBAC \<and> hasMFA \<and> hasLogs then COMPLIANT
         else if hasRBAC \<or> hasMFA then PARTIAL
         else NON_COMPLIANT)"

definition checkEncryptionCompliance :: "ComplianceRequirement \<Rightarrow> requirement_status" where
  "checkEncryptionCompliance r =
     (let hasEncryption = ''End-to-end encryption'' \<in> set (evidence r);
          hasKeyManagement = ''Key management'' \<in> set (evidence r);
          hasHSM = ''HSM integration'' \<in> set (evidence r)
      in if hasEncryption \<and> hasKeyManagement \<and> hasHSM then COMPLIANT
         else if hasEncryption \<or> hasKeyManagement then PARTIAL
         else NON_COMPLIANT)"

definition checkAuditCompliance :: "ComplianceRequirement \<Rightarrow> requirement_status" where
  "checkAuditCompliance r =
     (let hasMonitoring = ''Real-time monitoring'' \<in> set (evidence r);
          hasLogging = ''Security event logging'' \<in> set (evidence r);
          hasTrails = ''Audit trails'' \<in> set (evidence r)
      in if hasMonitoring \<and> hasLogging \<and> hasTrails then COMPLIANT
         else if hasLogging \<or> hasTrails then PARTIAL
         else NON_COMPLIANT)"

definition checkDataProtectionCompliance :: "ComplianceRequirement \<Rightarrow> requirement_status" where
  "checkDataProtectionCompliance r =
     (let hasEncryption = ''Data encryption'' \<in> set (evidence r);
          hasAccessControls = ''Access controls'' \<in> set (evidence r);
          hasAuditLogging = ''Audit logging'' \<in> set (evidence r)
      in if hasEncryption \<and> hasAccessControls \<and> hasAuditLogging then COMPLIANT
         else if hasEncryption \<or> hasAccessControls then PARTIAL
         else NON_COMPLIANT)"

definition checkRetentionCompliance :: "ComplianceRequirement \<Rightarrow> requirement_status" where
  "checkRetentionCompliance r =
     (let hasDeletionProcedures = ''Data deletion procedures'' \<in> set (evidence r);
          hasRetentionPolicies = ''Retention policies'' \<in> set (evidence r)
      in if hasDeletionProcedures \<and> hasRetentionPolicies then COMPLIANT
         else if hasDeletionProcedures \<or> hasRetentionPolicies then PARTIAL
         else NON_COMPLIANT)"

text \<open>The \<open>switch\<close> on the category; its \<open>default\<close> branch has no value of the type left to take.\<close>

definition checkRequirement :: "ComplianceRequirement \<Rightarrow> requirement_status" where
  "checkRequirement r =
     (case req_category r of
        ACCESS_CONTROL \<Rightarrow> checkAccessControlCompliance r
      | ENCRYPTION \<Rightarrow> checkEncryptionCompliance r
      | AUDIT \<Rightarrow> checkAuditCompliance r
      | DATA_PROTECTION \<Rightarrow> checkDataProtectionCompliance r
      | RETENTION \<Rightarrow> checkRetentionCompliance r)"

text \<open>One turn of the loop over the requirements: the status is recomputed and the check dated.\<close>

definition assess_requirement :: "call_env \<Rightarrow> ComplianceRequirement \<Rightarrow> ComplianceRequirement" where
  "assess_requirement io r = r\<lparr>req_status := checkRequirement r, lastChecked := now io\<rparr>"

text \<open>The overall status, from the two \<open>filter(...).length\<close> counts.\<close>

definition overall_status :: "ComplianceRequirement list \<Rightarrow> framework_status" where
  "overall_status rs =
     (let nonCompliantCount = length (filter (\<lambda>r. req_status r = NON_COMPLIANT) rs);
          partialCount = length (filter (\<lambda>r. req_status r = PARTIAL) rs)
      in if nonCompliantCount = 0 \<and> partialCount = 0 then FW_COMPLIANT
         else if nonCompliantCount = 0 then FW_PARTIAL
         else FW_NON_COMPLIANT)"

text \<open>
  \<open>assessCompliance\<close> mutates the framework object held by the map before it
  awaits the audit write, so the new statuses stay when that write is rejected.
\<close>

definition assessCompliance ::
  "call_env \<Rightarrow> ComplianceManager \<Rightarrow> AuditManager \<Rightarrow> string
   \<Rightarrow> (ComplianceManager \<times> AuditManager) \<times> (error + ComplianceFramework)" where
  "assessCompliance io cm am frameworkName =
     (case frameworks cm frameworkName of
        None \<Rightarrow> ((cm, am), Inl (Error (''Compliance framework '' @ frameworkName @ '' not found'')))
      | Some framework \<Rightarrow>
          (let rs = map (assess_requirement io) (requirements framework);
               framework' = framework\<lparr>requirements := rs, fw_status := overall_status rs,
                                       lastAssessment := now io\<rparr>;
               cm' = cm\<lparr>frameworks := (frameworks cm)(frameworkName \<mapsto> framework')\<rparr>
           in case logAuditEvent io am
                     \<lparr>ae_timestamp = now io, ae_userId = ''system'', ae_action = ''COMPLIANCE_ASSESSMENT'',
                      ae_resource = frameworkName, ae_result = SUCCESS, ae_ipAddress = None,
                      ae_userAgent = None,
                      ae_metadata = Some [(''status'', JString (framework_status_value (fw_status framework'))),
                                          (''requirements'', JNumber (int (length rs)))]\<rparr> of
                (am', Inl e) \<Rightarrow> ((cm', am'), Inl e)
              | (am', Inr _) \<Rightarrow> ((cm', am'), Inr framework')))"

definition getDataRetentionPolicy :: "ComplianceManager \<Rightarrow> string \<Rightarrow> DataRetentionPolicy option" where
  "getDataRetentionPolicy cm dt = find (\<lambda>policy. dataType policy = dt) (retentionPolicies cm)"

text \<open>
  \<open>scheduleDataDeletion\<close>. The deletion date is the clock's date moved on by the
  retention period in days of 86400000 ms. \<open>setDate\<close> moves the local calendar
  date, so where a daylight-saving change lies in between, the instant in the code
  is an hour off this one; the branch without a policy reads no date.
\<close>

definition scheduleDataDeletion ::
  "call_env \<Rightarrow> ComplianceManager \<Rightarrow> AuditManager \<Rightarrow> string \<Rightarrow> AuditManager \<times> (error + bool)" where
  "scheduleDataDeletion io cm am dt =
     (case getDataRetentionPolicy cm dt of
        None \<Rightarrow> (am, Inr False)
      | Some policy \<Rightarrow>
          returning
            (logAuditEvent io am
               \<lparr>ae_timestamp = now io, ae_userId = ''system'', ae_action = ''SCHEDULE_DELETION'',
                ae_resource = dt, ae_result = SUCCESS, ae_ipAddress = None, ae_userAgent = None,
                ae_metadata = Some [(''deletionDate'', JDate (now io + retentionPeriod policy * 86400000)),
                                    (''retentionPeriod'', JNumber (retentionPeriod policy)),
                                    (''deletionMethod'', JString (deletion_method_value (deletionMethod policy)))]\<rparr>)
            True)"

section \<open>EncryptionManager: password hashing\<close>

text \<open>A \<open>Buffer\<close> is the list of its bytes.\<close>

type_synonym byte = "8 word"

text \<open>\<open>buf.toString('hex')\<close>: two lower-case digits for each byte.\<close>

definition hex_digit :: "nat \<Rightarrow> char" where
  "hex_digit n = (if n < 10 then char_of (48 + n) else char_of (87 + n))"

definition toString_hex :: "byte list \<Rightarrow> string" where
  "toString_hex bs = concat (map (\<lambda>b. [hex_digit (unat b div 16), hex_digit (unat b mod 16)]) bs)"

text \<open>
  \<open>Buffer.from(s, 'hex')\<close>: pairs of hex digits of either case are decoded from
  the left; decoding stops at the first pair that is not two hex digits, and a
  last single character is dropped. This is the decoder on strings of 8-bit
  characters; node reads the low byte of a UTF-16 unit, so a unit above U+00FF can
  count as a digit there and never does here.
\<close>

definition hex_value :: "char \<Rightarrow> nat option" where
  "hex_value c =
     (let n = (of_char c :: nat)
      in if 48 \<le> n \<and> n \<le> 57 then Some (n - 48)
         else if 97 \<le> n \<and> n \<le> 102 then Some (n - 87)
         else if 65 \<le> n \<and> n \<le> 70 then Some (n - 55)
         else None)"

fun Buffer_from_hex :: "string \<Rightarrow> byte list" where
  "Buffer_from_hex (a # b # rest) =
     (case (hex_value a, hex_value b) of
        (Some h, Some l) \<Rightarrow> of_nat (16 * h + l) # Buffer_from_hex rest
      | _ \<Rightarrow> [])"
| "Buffer_from_hex _ = []"

text \<open>
  \<open>crypto.timingSafeEqual\<close> throws a \<open>RangeError\<close> when the two buffers differ
  in byte length and compares them otherwise.
\<close>

definition timingSafeEqual :: "byte list \<Rightarrow> byte list \<Rightarrow> error + bool" where
  "timingSafeEqual a b =
     (if length a \<noteq> length b then Inl (RangeError ''Input buffers must have the same byte length'')
      else Inr (a = b))"

record PasswordHash =
  hash :: string
  salt :: string

text \<open>
  \<open>crypto.pbkdf2Sync(password, salt, iterations, keylen, digest)\<close> is the
  argument \<open>pbkdf2Sync\<close>, and \<open>rnd\<close> the bytes that \<open>crypto.randomBytes(32)\<close>
  returns. A salt that is absent or empty is replaced by the random one.
\<close>

definition hashPassword ::
  "(string \<Rightarrow> string \<Rightarrow> nat \<Rightarrow> nat \<Rightarrow> string \<Rightarrow> byte list) \<Rightarrow> byte list \<Rightarrow> string \<Rightarrow> string option
   \<Rightarrow> PasswordHash" where
  "hashPassword pbkdf2Sync rnd password salt_opt =
     (let actualSalt = (case salt_opt of
                          None \<Rightarrow> toString_hex rnd
                        | Some s \<Rightarrow> if s = [] then toString_hex rnd else s)
      in \<lparr>hash = toString_hex (pbkdf2Sync password actualSalt 100000 64 ''sha512''),
          salt = actualSalt\<rparr>)"

definition verifyPassword ::
  "(string \<Rightarrow> string \<Rightarrow> nat \<Rightarrow> nat \<Rightarrow> string \<Rightarrow> byte list) \<Rightarrow> byte list \<Rightarrow> string \<Rightarrow> string \<Rightarrow> string
   \<Rightarrow> error + bool" where
  "verifyPassword pbkdf2Sync rnd password h s =
     (let computedHash = hash (hashPassword pbkdf2Sync rnd password (Some s))
      in timingSafeEqual (Buffer_from_hex h) (Buffer_from_hex computedHash))"

section \<open>EncryptionManager: encryption\<close>












section \<open>Properties stated about the operations\<close>

text \<open>The store takes the row of this call: the driver reports no error and the id is free.\<close>

definition audit_write_accepted :: "call_env \<Rightarrow> AuditManager \<Rightarrow> bool" where
  "audit_write_accepted io am =
     (driver_err io = None \<and> secureId io \<notin> set (map ae_id (audit_events (db am))))"

definition security_write_accepted :: "call_env \<Rightarrow> AuditManager \<Rightarrow> bool" where
  "security_write_accepted io am =
     (driver_err io = None \<and> secureId io \<notin> set (map se_id (security_events (db am))))"

text \<open>\<open>new\<close> is \<open>old\<close> with one more row at its end.\<close>

definition appended_one :: "'a list \<Rightarrow> 'a list \<Rightarrow> bool" where
  "appended_one old new = (new \<noteq> [] \<and> butlast new = old)"

text \<open>
  Between the manager before and after a call of \<open>authorize\<close> that returned
  \<open>r\<close>: exactly one row was written, an audit event when \<open>r\<close> allows, a security
  event of severity \<open>MEDIUM\<close> or \<open>HIGH\<close> when it denies.
\<close>

definition audits_exactly_once :: "AuditManager \<Rightarrow> AuditManager \<Rightarrow> AuthorizationResult \<Rightarrow> bool" where
  "audits_exactly_once am am' r =
     (ai_actions (db am') = ai_actions (db am) \<and>
      (if allowed r
       then appended_one (audit_events (db am)) (audit_events (db am'))
            \<and> security_events (db am') = security_events (db am)
       else appended_one (security_events (db am)) (security_events (db am'))
            \<and> se_severity (last (security_events (db am'))) \<in> set [MEDIUM, HIGH]
            \<and> audit_events (db am') = audit_events (db am)))"

text \<open>A reason string that mentions multi-factor authentication.\<close>

fun starts_with :: "string \<Rightarrow> string \<Rightarrow> bool" where
  "starts_with s [] = True"
| "starts_with [] (p # ps) = False"
| "starts_with (c # cs) (p # ps) = (c = p \<and> starts_with cs ps)"

fun includes_str :: "string \<Rightarrow> string \<Rightarrow> bool" where
  "includes_str [] sub = (sub = [])"
| "includes_str (c # cs) sub = (starts_with (c # cs) sub \<or> includes_str cs sub)"

definition mentions_MFA :: "string option \<Rightarrow> bool" where
  "mentions_MFA why =
     (case why of
        None \<Rightarrow> False
      | Some r \<Rightarrow> includes_str r ''Multi-factor authentication''
                  \<or> includes_str r ''multi-factor authentication'' \<or> includes_str r ''MFA'')"

text \<open>
  The overall status in the words of the specification: non-compliant if any
  requirement is, else partial if any requirement is, else compliant.
\<close>

definition overall_status_spec :: "ComplianceRequirement list \<Rightarrow> framework_status" where
  "overall_status_spec rs =
     (if \<exists>r \<in> set rs. req_status r = NON_COMPLIANT then FW_NON_COMPLIANT
      else if \<exists>r \<in> set rs. req_status r = PARTIAL then FW_PARTIAL
      else FW_COMPLIANT)"

text \<open>The statuses that a manager holds for a framework: the overall one and the requirements' in order.\<close>

definition statuses_of :: "ComplianceManager \<Rightarrow> string \<Rightarrow> (framework_status \<times> requirement_status list) option" where
  "statuses_of cm n = map_option (\<lambda>f. (fw_status f, map req_status (requirements f))) (frameworks cm n)"

definition framework_statuses :: "ComplianceFramework \<Rightarrow> framework_status \<times> requirement_status list" where
  "framework_statuses f = (fw_status f, map req_status (requirements f))"

text \<open>
  The five checks as one table. \<open>required_tags\<close> are the tags a category reads,
  \<open>partial_tags\<close> those of them that the check joins with \<open>||\<close>: a requirement is
  compliant with all required tags, else partial with one of the partial tags,
  else non-compliant.
\<close>

definition required_tags :: "category \<Rightarrow> string list" where
  "required_tags c =
     (case c of
        ACCESS_CONTROL \<Rightarrow> [''RBAC implementation'', ''MFA enforcement'', ''Access logs'']
      | ENCRYPTION \<Rightarrow> [''End-to-end encryption'', ''Key management'', ''HSM integration'']
      | AUDIT \<Rightarrow> [''Real-time monitoring'', ''Security event logging'', ''Audit trails'']
      | DATA_PROTECTION \<Rightarrow> [''Data encryption'', ''Access controls'', ''Audit logging'']
      | RETENTION \<Rightarrow> [''Data deletion procedures'', ''Retention policies''])"

definition partial_tags :: "category \<Rightarrow> string list" where
  "partial_tags c =
     (case c of
        ACCESS_CONTROL \<Rightarrow> [''RBAC implementation'', ''MFA enforcement'']
      | ENCRYPTION \<Rightarrow> [''End-to-end encryption'', ''Key management'']
      | AUDIT \<Rightarrow> [''Security event logging'', ''Audit trails'']
      | DATA_PROTECTION \<Rightarrow> [''Data encryption'', ''Access controls'']
      | RETENTION \<Rightarrow> [''Data deletion procedures'', ''Retention policies''])"

definition category_rule :: "category \<Rightarrow> string list \<Rightarrow> requirement_status" where
  "category_rule c ev =
     (if list_all (\<lambda>t. t \<in> set ev) (required_tags c) then COMPLIANT
      else if list_ex (\<lambda>t. t \<in> set ev) (partial_tags c) then PARTIAL
      else NON_COMPLIANT)"

text \<open>
  The category rule in the words of the specification: all of the category's tags
  for compliant, any one of them for partial, none for non-compliant.
\<close>

definition category_rule_spec :: "category \<Rightarrow> string list \<Rightarrow> requirement_status" where
  "category_rule_spec c ev =
     (if list_all (\<lambda>t. t \<in> set ev) (required_tags c) then COMPLIANT
      else if list_ex (\<lambda>t. t \<in> set ev) (required_tags c) then PARTIAL
      else NON_COMPLIANT)"


section \<open>Concrete inputs\<close>

definition empty_db :: Database where
  "empty_db = \<lparr>audit_events = [], security_events = [], ai_actions = []\<rparr>"

definition example_manager :: AuditManager where
  "example_manager = \<lparr>db = empty_db, encryptionKey = ''master'', hmac_sha256 = (\<lambda>k e. ''00'')\<rparr>"

definition env_ok :: call_env where
  "env_ok = \<lparr>now = 1000, secureId = ''a1'', driver_err = None\<rparr>"

definition env_later :: call_env where
  "env_later = \<lparr>now = 2000, secureId = ''b2'', driver_err = None\<rparr>"

definition env_busy :: call_env where
  "env_busy = \<lparr>now = 1000, secureId = ''a1'', driver_err = Some ''SQLITE_BUSY''\<rparr>"

definition example_user :: "UserRole \<Rightarrow> bool \<Rightarrow> bool \<Rightarrow> User" where
  "example_user r mfa active =
     \<lparr>user_id = ''u1'', username = ''alice'', email = ''alice@example.org'', role = r,
      permissions = [], mfaEnabled = mfa, lastLogin = None, isActive = active\<rparr>"

text \<open>An agent action as \<open>logAIAction\<close> inserts it, pending, and a manager that holds it.\<close>

definition pending_action :: AIActionRow where
  "pending_action =
     \<lparr>ai_id = ''act1'', ai_timestamp = 500, ai_userId = ''u7'', ai_action = ''deploy'',
      approval_required = True, approved_by = None, approved_at = None, executed = False,
      executed_at = None, ai_metadata = None, ai_hash = ''00''\<rparr>"

definition manager_with_action :: AuditManager where
  "manager_with_action = example_manager\<lparr>db := empty_db\<lparr>ai_actions := [pending_action]\<rparr>\<rparr>"

text \<open>A stand-in for the key derivation that returns \<open>keylen\<close> zero bytes.\<close>

definition zero_kdf :: "string \<Rightarrow> string \<Rightarrow> nat \<Rightarrow> nat \<Rightarrow> string \<Rightarrow> byte list" where
  "zero_kdf password s iterations keylen digest = replicate keylen 0"

text \<open>A manager whose framework \<open>SOC2\<close> has one access-control requirement, with the evidence \<open>Access logs\<close> alone.\<close>

definition logs_only_manager :: ComplianceManager where
  "logs_only_manager =
     \<lparr>frameworks = Map.empty(''SOC2'' \<mapsto>
        \<lparr>fw_name = ''SOC 2 Type II'', fw_version = ''2023'',
         requirements = [requirement 0 ''CC6.1'' ''Logical Access Security'' ''Access is logged''
                           ACCESS_CONTROL [''Access logs'']],
         lastAssessment = 0, fw_status = FW_COMPLIANT\<rparr>),
      retentionPolicies = initializeRetentionPolicies\<rparr>"




section \<open>The audit store\<close>

lemma appended_one_iff: "appended_one old new \<longleftrightarrow> (\<exists>x. new = old @ [x])"
  unfolding appended_one_def
  by (metis butlast_snoc snoc_eq_iff_butlast)

lemma logAuditEvent_accepted:
  "audit_write_accepted io am \<Longrightarrow>
   logAuditEvent io am ev =
     (am\<lparr>db := (db am)\<lparr>audit_events := audit_events (db am) @ [auditEvent_of am io ev]\<rparr>\<rparr>, Inr (secureId io))"
  by (simp add: audit_write_accepted_def logAuditEvent_def insert_audit_event_def auditEvent_of_def)

lemma logSecurityEvent_accepted:
  "security_write_accepted io am \<Longrightarrow>
   logSecurityEvent io am ev =
     (am\<lparr>db := (db am)\<lparr>security_events := security_events (db am) @ [securityEvent_of io ev]\<rparr>\<rparr>, Inr (secureId io))"
  by (simp add: security_write_accepted_def logSecurityEvent_def insert_security_event_def securityEvent_of_def)

lemma logAuditEvent_driver_err:
  "driver_err io = Some m \<Longrightarrow> logAuditEvent io am ev = (am, Inl (SqliteError m))"
  by (simp add: logAuditEvent_def insert_audit_event_def)

lemma logSecurityEvent_driver_err:
  "driver_err io = Some m \<Longrightarrow> logSecurityEvent io am ev = (am, Inl (SqliteError m))"
  by (simp add: logSecurityEvent_def insert_security_event_def)

text \<open>A write either lands as one new row or is rejected and leaves the manager as it was.\<close>

lemma returning_audit_cases:
  "returning (logAuditEvent io am ev) v =
     (if audit_write_accepted io am
      then (am\<lparr>db := (db am)\<lparr>audit_events := audit_events (db am) @ [auditEvent_of am io ev]\<rparr>\<rparr>, Inr v)
      else (am, Inl (case driver_err io of Some m \<Rightarrow> SqliteError m
                     | None \<Rightarrow> SqliteError ''SQLITE_CONSTRAINT: UNIQUE constraint failed: audit_events.id'')))"
  by (auto simp add: returning_def audit_write_accepted_def logAuditEvent_def insert_audit_event_def
        auditEvent_of_def split: option.splits)

lemma returning_security_cases:
  "returning (logSecurityEvent io am ev) v =
     (if security_write_accepted io am
      then (am\<lparr>db := (db am)\<lparr>security_events := security_events (db am) @ [securityEvent_of io ev]\<rparr>\<rparr>, Inr v)
      else (am, Inl (case driver_err io of Some m \<Rightarrow> SqliteError m
                     | None \<Rightarrow> SqliteError ''SQLITE_CONSTRAINT: UNIQUE constraint failed: security_events.id'')))"
  by (auto simp add: returning_def security_write_accepted_def logSecurityEvent_def
        insert_security_event_def securityEvent_of_def split: option.splits)

section \<open>Role changes\<close>

text \<open>
  What \<open>updateUserRole\<close> tests is the string \<open>updatedBy\<close> against the text
  \<open>executive\<close>: with that text the call returns \<open>true\<close> and has written one audit
  event, with any other it returns \<open>false\<close> and has written one security event.
  Both writes are stated for a store that accepts the row.
\<close>

lemma updateUserRole_string_test:
  "(snd (updateUserRole io am userId newRole updatedBy) = Inr True \<longrightarrow> updatedBy = role_value EXECUTIVE)
   \<and> (updatedBy = role_value EXECUTIVE \<and> audit_write_accepted io am \<longrightarrow>
        snd (updateUserRole io am userId newRole updatedBy) = Inr True
        \<and> security_events (db (fst (updateUserRole io am userId newRole updatedBy))) = security_events (db am)
        \<and> (\<exists>e. audit_events (db (fst (updateUserRole io am userId newRole updatedBy))) = audit_events (db am) @ [e]
               \<and> ae_action e = ''UPDATE_USER_ROLE'' \<and> ae_result e = SUCCESS \<and> ae_userId e = updatedBy
               \<and> ae_metadata e = Some [(''targetUserId'', JString userId),
                                        (''newRole'', JString (role_value newRole))]))
   \<and> (updatedBy \<noteq> role_value EXECUTIVE \<and> security_write_accepted io am \<longrightarrow>
        snd (updateUserRole io am userId newRole updatedBy) = Inr False
        \<and> audit_events (db (fst (updateUserRole io am userId newRole updatedBy))) = audit_events (db am)
        \<and> (\<exists>e. security_events (db (fst (updateUserRole io am userId newRole updatedBy))) = security_events (db am) @ [e]
               \<and> se_eventType e = AUTHORIZATION \<and> se_severity e = HIGH \<and> se_userId e = updatedBy
               \<and> se_description e = ''Unauthorized role change attempt: '' @ userId
               \<and> se_metadata e = Some [(''targetUserId'', JString userId),
                                        (''newRole'', JString (role_value newRole))]))"
proof (intro conjI impI)
  assume "snd (updateUserRole io am userId newRole updatedBy) = Inr True"
  then show "updatedBy = role_value EXECUTIVE"
    by (simp add: updateUserRole_def returning_security_cases split: if_splits)
next
  assume h: "updatedBy = role_value EXECUTIVE \<and> audit_write_accepted io am"
  then show "snd (updateUserRole io am userId newRole updatedBy) = Inr True"
    by (simp add: updateUserRole_def returning_audit_cases)
  from h show "security_events (db (fst (updateUserRole io am userId newRole updatedBy))) = security_events (db am)"
    by (simp add: updateUserRole_def returning_audit_cases)
  from h show "\<exists>e. audit_events (db (fst (updateUserRole io am userId newRole updatedBy))) = audit_events (db am) @ [e]
               \<and> ae_action e = ''UPDATE_USER_ROLE'' \<and> ae_result e = SUCCESS \<and> ae_userId e = updatedBy
               \<and> ae_metadata e = Some [(''targetUserId'', JString userId),
                                        (''newRole'', JString (role_value newRole))]"
    by (simp add: updateUserRole_def returning_audit_cases auditEvent_of_def)
next
  assume h: "updatedBy \<noteq> role_value EXECUTIVE \<and> security_write_accepted io am"
  then show "snd (updateUserRole io am userId newRole updatedBy) = Inr False"
    by (simp add: updateUserRole_def returning_security_cases)
  from h show "audit_events (db (fst (updateUserRole io am userId newRole updatedBy))) = audit_events (db am)"
    by (simp add: updateUserRole_def returning_security_cases)
  from h show "\<exists>e. security_events (db (fst (updateUserRole io am userId newRole updatedBy))) = security_events (db am) @ [e]
               \<and> se_eventType e = AUTHORIZATION \<and> se_severity e = HIGH \<and> se_userId e = updatedBy
               \<and> se_description e = ''Unauthorized role change attempt: '' @ userId
               \<and> se_metadata e = Some [(''targetUserId'', JString userId),
                                        (''newRole'', JString (role_value newRole))]"
    by (simp add: updateUserRole_def returning_security_cases securityEvent_of_def authorization_event_def)
qed

text \<open>
  C1. The caller of \<open>updateUserRole\<close> is passed by its id, the string that the
  method stores as the event's \<open>userId\<close>. The method compares this id with the
  text \<open>executive\<close> and looks at no role. So a caller whose role is Executive, under
  any id but that text, is turned away: the call returns \<open>false\<close> and has written a
  security event of severity \<open>HIGH\<close> for an unauthorized role change. And a caller
  of any other role whose id is that text changes the role: the call returns
  \<open>true\<close> and has written the audit event.
\<close>

theorem updateUserRole_tests_id_not_role:
  "(role caller = EXECUTIVE \<and> user_id caller \<noteq> ''executive'' \<and> security_write_accepted io am \<longrightarrow>
      snd (updateUserRole io am userId newRole (user_id caller)) = Inr False
      \<and> audit_events (db (fst (updateUserRole io am userId newRole (user_id caller)))) = audit_events (db am)
      \<and> (\<exists>e. security_events (db (fst (updateUserRole io am userId newRole (user_id caller)))) = security_events (db am) @ [e]
             \<and> se_eventType e = AUTHORIZATION \<and> se_severity e = HIGH \<and> se_userId e = user_id caller
             \<and> se_description e = ''Unauthorized role change attempt: '' @ userId))
   \<and> (role caller \<noteq> EXECUTIVE \<and> user_id caller = ''executive'' \<and> audit_write_accepted io am \<longrightarrow>
      snd (updateUserRole io am userId newRole (user_id caller)) = Inr True
      \<and> security_events (db (fst (updateUserRole io am userId newRole (user_id caller)))) = security_events (db am)
      \<and> (\<exists>e. audit_events (db (fst (updateUserRole io am userId newRole (user_id caller)))) = audit_events (db am) @ [e]
             \<and> ae_action e = ''UPDATE_USER_ROLE'' \<and> ae_result e = SUCCESS \<and> ae_userId e = user_id caller))"
proof (intro conjI impI)
  assume h: "role caller = EXECUTIVE \<and> user_id caller \<noteq> ''executive'' \<and> security_write_accepted io am"
  then show "snd (updateUserRole io am userId newRole (user_id caller)) = Inr False"
    by (simp add: updateUserRole_def returning_security_cases)
  from h show "audit_events (db (fst (updateUserRole io am userId newRole (user_id caller)))) = audit_events (db am)"
    by (simp add: updateUserRole_def returning_security_cases)
  from h show "\<exists>e. security_events (db (fst (updateUserRole io am userId newRole (user_id caller)))) = security_events (db am) @ [e]
             \<and> se_eventType e = AUTHORIZATION \<and> se_severity e = HIGH \<and> se_userId e = user_id caller
             \<and> se_description e = ''Unauthorized role change attempt: '' @ userId"
    by (simp add: updateUserRole_def returning_security_cases securityEvent_of_def authorization_event_def)
next
  assume h: "role caller \<noteq> EXECUTIVE \<and> user_id caller = ''executive'' \<and> audit_write_accepted io am"
  then show "snd (updateUserRole io am userId newRole (user_id caller)) = Inr True"
    by (simp add: updateUserRole_def returning_audit_cases)
  from h show "security_events (db (fst (updateUserRole io am userId newRole (user_id caller)))) = security_events (db am)"
    by (simp add: updateUserRole_def returning_audit_cases)
  from h show "\<exists>e. audit_events (db (fst (updateUserRole io am userId newRole (user_id caller)))) = audit_events (db am) @ [e]
             \<and> ae_action e = ''UPDATE_USER_ROLE'' \<and> ae_result e = SUCCESS \<and> ae_userId e = user_id caller"
    by (simp add: updateUserRole_def returning_audit_cases auditEvent_of_def)
qed

text \<open>
  On an empty store: the Executive with id \<open>u1\<close> asks to make \<open>u2\<close> a manager and
  is refused; a viewer whose id is \<open>executive\<close> asks the same and succeeds.
\<close>

theorem updateUserRole_tests_id_not_role_witness:
  "role (example_user EXECUTIVE True True) = EXECUTIVE
   \<and> user_id (example_user EXECUTIVE True True) = ''u1''
   \<and> security_write_accepted env_ok example_manager
   \<and> snd (updateUserRole env_ok example_manager ''u2'' MANAGER ''u1'') = Inr False
   \<and> map se_severity (security_events (db (fst (updateUserRole env_ok example_manager ''u2'' MANAGER ''u1'')))) = [HIGH]
   \<and> audit_events (db (fst (updateUserRole env_ok example_manager ''u2'' MANAGER ''u1''))) = []
   \<and> role ((example_user VIEWER True True)\<lparr>user_id := ''executive''\<rparr>) = VIEWER
   \<and> audit_write_accepted env_ok example_manager
   \<and> snd (updateUserRole env_ok example_manager ''u2'' MANAGER ''executive'') = Inr True
   \<and> length (audit_events (db (fst (updateUserRole env_ok example_manager ''u2'' MANAGER ''executive'')))) = 1"
proof -
  have a: "audit_write_accepted env_ok example_manager"
    by (simp add: audit_write_accepted_def env_ok_def example_manager_def empty_db_def)
  have b: "security_write_accepted env_ok example_manager"
    by (simp add: security_write_accepted_def env_ok_def example_manager_def empty_db_def)
  have e: "audit_events (db example_manager) = []" "security_events (db example_manager) = []"
    by (simp_all add: example_manager_def empty_db_def)
  have u: "role (example_user EXECUTIVE True True) = EXECUTIVE"
      "user_id (example_user EXECUTIVE True True) = ''u1''"
      "role ((example_user VIEWER True True)\<lparr>user_id := ''executive''\<rparr>) = VIEWER"
      "user_id ((example_user VIEWER True True)\<lparr>user_id := ''executive''\<rparr>) = ''executive''"
    by (simp_all add: example_user_def)
  from a b e u
    updateUserRole_tests_id_not_role
      [where caller = "example_user EXECUTIVE True True" and io = env_ok and am = example_manager
         and userId = "''u2''" and newRole = MANAGER]
    updateUserRole_tests_id_not_role
      [where caller = "(example_user VIEWER True True)\<lparr>user_id := ''executive''\<rparr>" and io = env_ok
         and am = example_manager and userId = "''u2''" and newRole = MANAGER]
  show ?thesis by auto
qed

section \<open>Approval of agent actions\<close>

text \<open>
  C2. For an id that no row of \<open>ai_actions\<close> carries, the \<open>UPDATE\<close> of
  \<open>approveAIAction(id, approver)\<close> touches nothing and the method still returns
  \<open>true\<close>: it neither returns \<open>false\<close> nor raises. No table is changed, so no
  record of an approval is written.
\<close>

theorem approveAIAction_unknown_id:
  "driver_err io = None \<Longrightarrow> actionId \<notin> set (map ai_id (ai_actions (db am))) \<Longrightarrow>
   approveAIAction io am actionId approvedBy = (am, Inr True)"
proof -
  assume ok: "driver_err io = None" and absent: "actionId \<notin> set (map ai_id (ai_actions (db am)))"
  have "map (approve_row io actionId approvedBy) (ai_actions (db am)) = ai_actions (db am)"
    using absent by (intro map_idI) (auto simp add: approve_row_def)
  then show ?thesis using ok by (simp add: approveAIAction_def)
qed

theorem approveAIAction_unknown_id_witness:
  "driver_err env_ok = None \<and> ''unknownId'' \<notin> set (map ai_id (ai_actions (db example_manager)))
   \<and> approveAIAction env_ok example_manager ''unknownId'' ''execAlice'' = (example_manager, Inr True)"
  using approveAIAction_unknown_id [of env_ok "''unknownId''" example_manager "''execAlice''"]
  by (simp add: env_ok_def example_manager_def empty_db_def)

text \<open>
  C6. A row that is already decided (\<open>executed\<close> is set and an approver recorded) is
  not protected: a further \<open>approveAIAction\<close> on its id returns \<open>true\<close> and the
  row then carries the approver and the time of this later call.
\<close>

theorem approveAIAction_overwrites_decision:
  "driver_err io = None \<Longrightarrow> r \<in> set (ai_actions (db am)) \<Longrightarrow> ai_id r = actionId \<Longrightarrow>
   executed r \<Longrightarrow> approved_by r = Some firstApprover \<Longrightarrow>
   snd (approveAIAction io am actionId approvedBy) = Inr True
   \<and> r\<lparr>approved_by := Some approvedBy, approved_at := Some (now io), executed_at := Some (now io)\<rparr>
       \<in> set (ai_actions (db (fst (approveAIAction io am actionId approvedBy))))"
proof -
  assume ok: "driver_err io = None" and mem: "r \<in> set (ai_actions (db am))"
    and rid: "ai_id r = actionId" and ex: "executed r"
  have "approve_row io actionId approvedBy r
          = r\<lparr>approved_by := Some approvedBy, approved_at := Some (now io), executed_at := Some (now io)\<rparr>"
    using rid ex by (simp add: approve_row_def)
  moreover have "approve_row io actionId approvedBy r
          \<in> set (map (approve_row io actionId approvedBy) (ai_actions (db am)))"
    using mem by simp
  ultimately show ?thesis using ok by (simp add: approveAIAction_def)
qed

text \<open>
  The action \<open>act1\<close> is approved by \<open>execAlice\<close> at time 1000; the second call, by
  \<open>execBob\<close> at time 2000, returns \<open>true\<close> and replaces approver and time.
\<close>

theorem approveAIAction_overwrites_decision_witness:
  "ai_actions (db (fst (approveAIAction env_ok manager_with_action ''act1'' ''execAlice'')))
     = [pending_action\<lparr>approved_by := Some ''execAlice'', approved_at := Some 1000,
                       executed := True, executed_at := Some 1000\<rparr>]
   \<and> snd (approveAIAction env_later
            (fst (approveAIAction env_ok manager_with_action ''act1'' ''execAlice'')) ''act1'' ''execBob'')
       = Inr True
   \<and> ai_actions (db (fst (approveAIAction env_later
            (fst (approveAIAction env_ok manager_with_action ''act1'' ''execAlice'')) ''act1'' ''execBob'')))
     = [pending_action\<lparr>approved_by := Some ''execBob'', approved_at := Some 2000,
                       executed := True, executed_at := Some 2000\<rparr>]"
proof -
  let ?decided = "pending_action\<lparr>approved_by := Some ''execAlice'', approved_at := Some 1000,
                       executed := True, executed_at := Some 1000\<rparr>"
  let ?am1 = "fst (approveAIAction env_ok manager_with_action ''act1'' ''execAlice'')"
  have first: "ai_actions (db ?am1) = [?decided]"
    by (simp add: approveAIAction_def approve_row_def env_ok_def manager_with_action_def
          example_manager_def empty_db_def pending_action_def)
  have "driver_err env_later = None" "?decided \<in> set (ai_actions (db ?am1))"
       "ai_id ?decided = ''act1''" "executed ?decided" "approved_by ?decided = Some ''execAlice''"
    by (simp_all add: first env_later_def pending_action_def)
  from approveAIAction_overwrites_decision [OF this, of "''execBob''"]
  have second: "snd (approveAIAction env_later ?am1 ''act1'' ''execBob'') = Inr True" by simp
  have "ai_actions (db (fst (approveAIAction env_later ?am1 ''act1'' ''execBob'')))
          = map (approve_row env_later ''act1'' ''execBob'') (ai_actions (db ?am1))"
    by (simp add: approveAIAction_def env_later_def)
  also have "\<dots> = [pending_action\<lparr>approved_by := Some ''execBob'', approved_at := Some 2000,
                       executed := True, executed_at := Some 2000\<rparr>]"
    by (simp add: first approve_row_def env_later_def pending_action_def)
  finally show ?thesis using first second by simp
qed

section \<open>Authorization decisions\<close>

lemma authorize_driver_err:
  "driver_err io \<noteq> None \<Longrightarrow> authorize io mgr am user resource action ctx = (am, deny ''Authorization system error'')"
  by (auto simp add: authorize_def authorize_try_def returning_def logAuditEvent_driver_err
        logSecurityEvent_driver_err)

text \<open>
  C3, as the code has it. Every call of \<open>authorize\<close> either appends exactly one
  record, a security event of severity \<open>MEDIUM\<close> or \<open>HIGH\<close> when it denies and an
  audit event when it allows, or takes the \<open>catch\<close>, returns the denial
  \<open>Authorization system error\<close> and writes nothing. The first is the case whenever
  the store accepts the row of the call, the second whenever the driver reports an
  error.
\<close>

theorem authorize_one_write_when_accepted:
  "(audits_exactly_once am (fst (authorize io mgr am user resource action ctx)) (snd (authorize io mgr am user resource action ctx)) \<or> authorize io mgr am user resource action ctx = (am, deny ''Authorization system error''))
   \<and> (audit_write_accepted io am \<and> security_write_accepted io am \<longrightarrow>
        audits_exactly_once am (fst (authorize io mgr am user resource action ctx)) (snd (authorize io mgr am user resource action ctx)))
   \<and> (driver_err io \<noteq> None \<longrightarrow> authorize io mgr am user resource action ctx = (am, deny ''Authorization system error''))"
proof (intro conjI impI)
  show "audits_exactly_once am (fst (authorize io mgr am user resource action ctx)) (snd (authorize io mgr am user resource action ctx)) \<or> authorize io mgr am user resource action ctx = (am, deny ''Authorization system error'')"
    by (simp add: authorize_def authorize_try_def returning_audit_cases returning_security_cases
          audits_exactly_once_def appended_one_def deny_def securityEvent_of_def authorization_event_def)
next
  assume "audit_write_accepted io am \<and> security_write_accepted io am"
  then show "audits_exactly_once am (fst (authorize io mgr am user resource action ctx)) (snd (authorize io mgr am user resource action ctx))"
    by (simp add: authorize_def authorize_try_def returning_audit_cases returning_security_cases
          audits_exactly_once_def appended_one_def deny_def securityEvent_of_def authorization_event_def)
next
  assume "driver_err io \<noteq> None"
  then show "authorize io mgr am user resource action ctx = (am, deny ''Authorization system error'')"
    by (rule authorize_driver_err)
qed

text \<open>
  A member reads a profile (allowed, one audit event) and asks to approve an agent
  action without MFA (denied, one security event of severity \<open>MEDIUM\<close>); with the
  driver busy the same call gives the error denial.
\<close>

theorem authorize_one_write_when_accepted_witness:
  "audit_write_accepted env_ok example_manager \<and> security_write_accepted env_ok example_manager
   \<and> audits_exactly_once example_manager
        (fst (authorize env_ok new_AuthorizationManager example_manager (example_user USER False True) ''profile'' ''read'' None))
        (snd (authorize env_ok new_AuthorizationManager example_manager (example_user USER False True) ''profile'' ''read'' None))
   \<and> audits_exactly_once example_manager
        (fst (authorize env_ok new_AuthorizationManager example_manager (example_user USER False True) ''ai_actions'' ''approve'' None))
        (snd (authorize env_ok new_AuthorizationManager example_manager (example_user USER False True) ''ai_actions'' ''approve'' None))
   \<and> driver_err env_busy \<noteq> None
   \<and> authorize env_busy new_AuthorizationManager example_manager (example_user USER False True) ''profile'' ''read'' None
       = (example_manager, deny ''Authorization system error'')"
proof -
  have a: "audit_write_accepted env_ok example_manager"
    by (simp add: audit_write_accepted_def env_ok_def example_manager_def empty_db_def)
  have b: "security_write_accepted env_ok example_manager"
    by (simp add: security_write_accepted_def env_ok_def example_manager_def empty_db_def)
  have c: "driver_err env_busy \<noteq> None"
    by (simp add: env_busy_def)
  from a b c
    authorize_one_write_when_accepted
      [where io = env_ok and am = example_manager and mgr = new_AuthorizationManager
         and user = "example_user USER False True" and resource = "''profile''" and action = "''read''" and ctx = None]
    authorize_one_write_when_accepted
      [where io = env_ok and am = example_manager and mgr = new_AuthorizationManager
         and user = "example_user USER False True" and resource = "''ai_actions''" and action = "''approve''" and ctx = None]
    authorize_one_write_when_accepted
      [where io = env_busy and am = example_manager and mgr = new_AuthorizationManager
         and user = "example_user USER False True" and resource = "''profile''" and action = "''read''" and ctx = None]
  show ?thesis by simp
qed

text \<open>
  C3, as the claim has it, fails on the error path: with the driver busy the call
  returns a decision and the manager is the one it started from, with no row added.
\<close>

theorem authorize_error_path_writes_nothing:
  "authorize env_busy new_AuthorizationManager example_manager (example_user USER True True) ''profile'' ''read'' None
     = (example_manager, deny ''Authorization system error'')
   \<and> \<not> audits_exactly_once example_manager
         (fst (authorize env_busy new_AuthorizationManager example_manager (example_user USER True True) ''profile'' ''read'' None))
         (snd (authorize env_busy new_AuthorizationManager example_manager (example_user USER True True) ''profile'' ''read'' None))"
  by (simp add: authorize_driver_err env_busy_def audits_exactly_once_def deny_def appended_one_def
        example_manager_def empty_db_def)

text \<open>
  C4, as the code has it. For a principal without MFA, of any role, and a resource
  among \<open>security\<close>, \<open>users\<close> and \<open>ai_actions\<close>, \<open>authorize\<close> never allows. The
  reason is \<open>Multi-factor authentication required\<close> when the principal is active and
  the store accepts the security event.
\<close>

theorem authorize_denies_without_mfa:
  "\<not> mfaEnabled user \<Longrightarrow> resource \<in> set [''security'', ''users'', ''ai_actions''] \<Longrightarrow>
   \<not> allowed (snd (authorize io mgr am user resource action ctx))
   \<and> (isActive user \<and> security_write_accepted io am \<longrightarrow>
        snd (authorize io mgr am user resource action ctx) = deny ''Multi-factor authentication required''
        \<and> mentions_MFA (reason (snd (authorize io mgr am user resource action ctx))))"
proof -
  assume nomfa: "\<not> mfaEnabled user" and res: "resource \<in> set [''security'', ''users'', ''ai_actions'']"
  have need: "requiresMFA resource action"
    using res by (simp add: requiresMFA_def)
  have denied: "\<not> allowed (snd (authorize io mgr am user resource action ctx))"
    using nomfa need
    by (simp add: authorize_def authorize_try_def returning_security_cases deny_def)
  have why: "snd (authorize io mgr am user resource action ctx) = deny ''Multi-factor authentication required''"
    if "isActive user \<and> security_write_accepted io am"
    using that nomfa need
    by (simp add: authorize_def authorize_try_def returning_security_cases)
  have "mentions_MFA (reason (deny ''Multi-factor authentication required''))"
    by (simp add: mentions_MFA_def deny_def)
  with denied why show ?thesis by simp
qed

text \<open>An active Executive without MFA asks to view \<open>security\<close>.\<close>

theorem authorize_denies_without_mfa_witness:
  "\<not> mfaEnabled (example_user EXECUTIVE False True)
   \<and> ''security'' \<in> set [''security'', ''users'', ''ai_actions'']
   \<and> isActive (example_user EXECUTIVE False True) \<and> security_write_accepted env_ok example_manager
   \<and> snd (authorize env_ok new_AuthorizationManager example_manager (example_user EXECUTIVE False True) ''security'' ''view'' None)
       = deny ''Multi-factor authentication required''"
proof -
  have a: "\<not> mfaEnabled (example_user EXECUTIVE False True)" "isActive (example_user EXECUTIVE False True)"
    by (simp_all add: example_user_def)
  have b: "security_write_accepted env_ok example_manager"
    by (simp add: security_write_accepted_def env_ok_def example_manager_def empty_db_def)
  have c: "''security'' \<in> set [''security'', ''users'', ''ai_actions'']"
    by simp
  from authorize_denies_without_mfa [OF a(1) c, of env_ok new_AuthorizationManager example_manager "''view''" None] a b c
  show ?thesis by simp
qed

text \<open>
  C4, as the claim has it, fails for a principal whose account is inactive: the
  Executive without MFA is denied \<open>security\<close> with the reason
  \<open>User account is inactive\<close>, which does not mention MFA.
\<close>

theorem authorize_inactive_reason_not_mfa:
  "\<not> mfaEnabled (example_user EXECUTIVE False False)
   \<and> reason (snd (authorize env_ok new_AuthorizationManager example_manager (example_user EXECUTIVE False False) ''security'' ''view'' None))
       = Some ''User account is inactive''
   \<and> \<not> mentions_MFA (reason (snd (authorize env_ok new_AuthorizationManager example_manager (example_user EXECUTIVE False False) ''security'' ''view'' None)))"
  by (simp add: authorize_def authorize_try_def returning_security_cases security_write_accepted_def
       example_user_def env_ok_def example_manager_def empty_db_def deny_def mentions_MFA_def)

section \<open>Compliance assessment\<close>

text \<open>The status that \<open>checkRequirement\<close> gives depends on the category and the evidence tags alone.\<close>

lemma checkRequirement_inputs:
  "req_category r = req_category r' \<Longrightarrow> evidence r = evidence r' \<Longrightarrow>
   checkRequirement r = checkRequirement r'"
  by (simp add: checkRequirement_def checkAccessControlCompliance_def checkEncryptionCompliance_def
        checkAuditCompliance_def checkDataProtectionCompliance_def checkRetentionCompliance_def
        split: category.splits)

lemma req_status_assessed: "req_status (assess_requirement io r) = checkRequirement r"
  by (simp add: assess_requirement_def)

lemma checkRequirement_assessed: "checkRequirement (assess_requirement io r) = checkRequirement r"
  by (rule checkRequirement_inputs) (simp_all add: assess_requirement_def)

lemma statuses_reassessed:
  "map req_status (map (assess_requirement io') (map (assess_requirement io) rs))
     = map req_status (map (assess_requirement io) rs)"
  by (simp add: req_status_assessed checkRequirement_assessed)

text \<open>The two counts decide the overall status as the specification words it.\<close>

lemma count_zero_iff:
  "length (filter (\<lambda>r. req_status r = s) rs) = 0 \<longleftrightarrow> s \<notin> set (map req_status rs)"
  by (induction rs) auto

lemma overall_status_by_statuses:
  "overall_status rs =
     (if NON_COMPLIANT \<in> set (map req_status rs) then FW_NON_COMPLIANT
      else if PARTIAL \<in> set (map req_status rs) then FW_PARTIAL else FW_COMPLIANT)"
  unfolding overall_status_def Let_def count_zero_iff by simp

lemma status_mem: "s \<in> set (map req_status rs) \<longleftrightarrow> (\<exists>r \<in> set rs. req_status r = s)"
  by auto

lemma overall_status_refines: "overall_status rs = overall_status_spec rs"
  unfolding overall_status_by_statuses overall_status_spec_def status_mem by (rule refl)

lemma overall_status_cong:
  "map req_status rs = map req_status rs' \<Longrightarrow> overall_status rs = overall_status rs'"
  by (simp only: overall_status_by_statuses)

lemma assessCompliance_frameworks:
  "frameworks cm n = Some f \<Longrightarrow>
   frameworks (fst (fst (assessCompliance io cm am n))) =
     (frameworks cm)(n \<mapsto> f\<lparr>requirements := map (assess_requirement io) (requirements f),
                            fw_status := overall_status (map (assess_requirement io) (requirements f)),
                            lastAssessment := now io\<rparr>)"
  by (simp add: assessCompliance_def Let_def split: prod.splits sum.splits)

lemma assessCompliance_result:
  "frameworks cm n = Some f \<Longrightarrow> audit_write_accepted io am \<Longrightarrow>
   snd (assessCompliance io cm am n) =
     Inr (f\<lparr>requirements := map (assess_requirement io) (requirements f),
            fw_status := overall_status (map (assess_requirement io) (requirements f)),
            lastAssessment := now io\<rparr>)"
  by (simp add: assessCompliance_def Let_def logAuditEvent_accepted split: prod.splits sum.splits)

lemma assessCompliance_returned:
  "frameworks cm n = Some f \<Longrightarrow> snd (assessCompliance io cm am n) = Inr g \<Longrightarrow>
   g = f\<lparr>requirements := map (assess_requirement io) (requirements f),
         fw_status := overall_status (map (assess_requirement io) (requirements f)),
         lastAssessment := now io\<rparr>"
  by (auto simp add: assessCompliance_def Let_def split: prod.splits sum.splits)

text \<open>The five checks are the table \<open>category_rule\<close> read at the requirement's category and evidence.\<close>

lemma checkRequirement_rule: "checkRequirement r = category_rule (req_category r) (evidence r)"
proof (cases "req_category r")
  case DATA_PROTECTION
  then show ?thesis
    by (simp add: checkRequirement_def category_rule_def required_tags_def partial_tags_def
          checkDataProtectionCompliance_def Let_def)
next
  case ACCESS_CONTROL
  then show ?thesis
    by (simp add: checkRequirement_def category_rule_def required_tags_def partial_tags_def
          checkAccessControlCompliance_def Let_def)
next
  case AUDIT
  then show ?thesis
    by (simp add: checkRequirement_def category_rule_def required_tags_def partial_tags_def
          checkAuditCompliance_def Let_def)
next
  case ENCRYPTION
  then show ?thesis
    by (simp add: checkRequirement_def category_rule_def required_tags_def partial_tags_def
          checkEncryptionCompliance_def Let_def)
next
  case RETENTION
  then show ?thesis
    by (simp add: checkRequirement_def category_rule_def required_tags_def partial_tags_def
          checkRetentionCompliance_def Let_def)
qed

text \<open>
  C5, as the code has it. For a framework that the manager knows under the name,
  \<open>assessCompliance\<close> leaves under that name a framework in which every
  requirement keeps its id, category and evidence and has the status of the
  table \<open>category_rule\<close>: compliant with all tags of its category in the evidence,
  else partial with one of the category's two partial tags, else non-compliant.
  The overall status is non-compliant if any requirement is, else partial if
  any is, else compliant, and this framework is returned when the audit write is
  accepted. For a name the manager does not know, the call fails with the error
  \<open>Compliance framework ... not found\<close> and changes nothing.
\<close>

theorem assessCompliance_applies_category_rule:
  "(frameworks cm n = Some f \<longrightarrow>
      (\<exists>f'. frameworks (fst (fst (assessCompliance io cm am n))) n = Some f'
            \<and> map req_status (requirements f')
                = map (\<lambda>r. category_rule (req_category r) (evidence r)) (requirements f)
            \<and> map evidence (requirements f') = map evidence (requirements f)
            \<and> map req_category (requirements f') = map req_category (requirements f)
            \<and> map req_id (requirements f') = map req_id (requirements f)
            \<and> fw_status f' = overall_status_spec (requirements f')
            \<and> (audit_write_accepted io am \<longrightarrow> snd (assessCompliance io cm am n) = Inr f')))
   \<and> (frameworks cm n = None \<longrightarrow>
        assessCompliance io cm am n = ((cm, am), Inl (Error (''Compliance framework '' @ n @ '' not found''))))"
proof (intro conjI impI)
  assume known: "frameworks cm n = Some f"
  let ?f' = "f\<lparr>requirements := map (assess_requirement io) (requirements f),
               fw_status := overall_status (map (assess_requirement io) (requirements f)),
               lastAssessment := now io\<rparr>"
  have "frameworks (fst (fst (assessCompliance io cm am n))) n = Some ?f'"
    by (simp add: assessCompliance_frameworks [OF known])
  moreover have "map req_status (requirements ?f')
                   = map (\<lambda>r. category_rule (req_category r) (evidence r)) (requirements f)"
    by (simp add: req_status_assessed checkRequirement_rule)
  moreover have "map evidence (requirements ?f') = map evidence (requirements f)"
     "map req_category (requirements ?f') = map req_category (requirements f)"
     "map req_id (requirements ?f') = map req_id (requirements f)"
    by (simp_all add: assess_requirement_def)
  moreover have "fw_status ?f' = overall_status_spec (requirements ?f')"
    by (simp add: overall_status_refines)
  moreover have "audit_write_accepted io am \<longrightarrow> snd (assessCompliance io cm am n) = Inr ?f'"
    by (simp add: assessCompliance_result [OF known])
  ultimately show "\<exists>f'. frameworks (fst (fst (assessCompliance io cm am n))) n = Some f'
            \<and> map req_status (requirements f')
                = map (\<lambda>r. category_rule (req_category r) (evidence r)) (requirements f)
            \<and> map evidence (requirements f') = map evidence (requirements f)
            \<and> map req_category (requirements f') = map req_category (requirements f)
            \<and> map req_id (requirements f') = map req_id (requirements f)
            \<and> fw_status f' = overall_status_spec (requirements f')
            \<and> (audit_write_accepted io am \<longrightarrow> snd (assessCompliance io cm am n) = Inr f')"
    by blast
next
  assume "frameworks cm n = None"
  then show "assessCompliance io cm am n = ((cm, am), Inl (Error (''Compliance framework '' @ n @ '' not found'')))"
    by (simp add: assessCompliance_def)
qed

text \<open>
  The constructor sets every status to compliant. Assessing \<open>ISO27001\<close> changes
  that: \<open>A.9.1\<close> has none of the access-control tags and becomes non-compliant,
  \<open>A.10.1\<close> has all three encryption tags and stays compliant, and the framework
  becomes non-compliant. The manager does not know \<open>HIPAA\<close>.
\<close>

lemma assess_ISO27001:
  "statuses_of (new_ComplianceManager 0) ''ISO27001'' = Some (FW_COMPLIANT, [COMPLIANT, COMPLIANT])
   \<and> statuses_of (fst (fst (assessCompliance env_ok (new_ComplianceManager 0) example_manager ''ISO27001'')))
        ''ISO27001''
       = Some (FW_NON_COMPLIANT, [NON_COMPLIANT, COMPLIANT])"
  by (simp add: statuses_of_def assessCompliance_frameworks new_ComplianceManager_def
        initializeComplianceFrameworks_def iso27001Framework_def requirement_def assess_requirement_def
        overall_status_def checkRequirement_def checkAccessControlCompliance_def
        checkEncryptionCompliance_def)

theorem assessCompliance_applies_category_rule_witness:
  "frameworks (new_ComplianceManager 0) ''ISO27001'' = Some (iso27001Framework 0)
   \<and> audit_write_accepted env_ok example_manager
   \<and> statuses_of (new_ComplianceManager 0) ''ISO27001'' = Some (FW_COMPLIANT, [COMPLIANT, COMPLIANT])
   \<and> statuses_of (fst (fst (assessCompliance env_ok (new_ComplianceManager 0) example_manager ''ISO27001'')))
        ''ISO27001''
       = Some (FW_NON_COMPLIANT, [NON_COMPLIANT, COMPLIANT])
   \<and> map (\<lambda>r. category_rule (req_category r) (evidence r)) (requirements (iso27001Framework 0))
       = [NON_COMPLIANT, COMPLIANT]
   \<and> (\<exists>g. snd (assessCompliance env_ok (new_ComplianceManager 0) example_manager ''ISO27001'') = Inr g)
   \<and> frameworks (new_ComplianceManager 0) ''HIPAA'' = None
   \<and> assessCompliance env_ok (new_ComplianceManager 0) example_manager ''HIPAA''
       = ((new_ComplianceManager 0, example_manager), Inl (Error ''Compliance framework HIPAA not found''))"
proof -
  have a: "frameworks (new_ComplianceManager 0) ''ISO27001'' = Some (iso27001Framework 0)"
    by (simp add: new_ComplianceManager_def initializeComplianceFrameworks_def)
  have b: "frameworks (new_ComplianceManager 0) ''HIPAA'' = None"
    by (simp add: new_ComplianceManager_def initializeComplianceFrameworks_def)
  have c: "audit_write_accepted env_ok example_manager"
    by (simp add: audit_write_accepted_def env_ok_def example_manager_def empty_db_def)
  have r: "map (\<lambda>r. category_rule (req_category r) (evidence r)) (requirements (iso27001Framework 0))
             = [NON_COMPLIANT, COMPLIANT]"
    by (simp add: iso27001Framework_def requirement_def category_rule_def required_tags_def
          partial_tags_def)
  from a c assessCompliance_applies_category_rule
         [where cm = "new_ComplianceManager 0" and n = "''ISO27001''" and f = "iso27001Framework 0"
            and io = env_ok and am = example_manager]
  have d: "\<exists>g. snd (assessCompliance env_ok (new_ComplianceManager 0) example_manager ''ISO27001'') = Inr g"
    by blast
  from b assessCompliance_applies_category_rule
         [where cm = "new_ComplianceManager 0" and n = "''HIPAA''" and f = "iso27001Framework 0"
            and io = env_ok and am = example_manager]
  have e: "assessCompliance env_ok (new_ComplianceManager 0) example_manager ''HIPAA''
       = ((new_ComplianceManager 0, example_manager), Inl (Error ''Compliance framework HIPAA not found''))"
    by simp
  from a b c d e r assess_ISO27001 show ?thesis by simp
qed

text \<open>
  C5, with the category rule as the specification words it (any one tag for
  partial), fails: an access-control requirement whose evidence is \<open>Access logs\<close>
  alone is assessed non-compliant, where that rule gives partial.
\<close>

theorem assessCompliance_access_logs_alone:
  "statuses_of (fst (fst (assessCompliance env_ok logs_only_manager example_manager ''SOC2''))) ''SOC2''
     = Some (FW_NON_COMPLIANT, [NON_COMPLIANT])
   \<and> category_rule_spec ACCESS_CONTROL [''Access logs''] = PARTIAL"
  by (simp add: statuses_of_def assessCompliance_frameworks logs_only_manager_def requirement_def
        assess_requirement_def overall_status_def checkRequirement_def checkAccessControlCompliance_def
        category_rule_spec_def required_tags_def)

text \<open>
  C8. A second \<open>assessCompliance\<close> of the same framework, run on what the first
  left and with nothing changed in between, leaves the same overall status and the
  same status for every requirement, in the manager and in the frameworks the two
  calls return. Clock, id and driver outcome of the two calls are unrelated.
\<close>

theorem assessCompliance_idempotent:
  "frameworks cm n = Some f \<Longrightarrow>
   statuses_of (fst (fst (assessCompliance io cm am n))) n \<noteq> None
   \<and> statuses_of (fst (fst (assessCompliance io' (fst (fst (assessCompliance io cm am n))) (snd (fst (assessCompliance io cm am n))) n))) n
       = statuses_of (fst (fst (assessCompliance io cm am n))) n
   \<and> (\<forall>g g'. snd (assessCompliance io cm am n) = Inr g
        \<and> snd (assessCompliance io' (fst (fst (assessCompliance io cm am n))) (snd (fst (assessCompliance io cm am n))) n) = Inr g'
        \<longrightarrow> framework_statuses g' = framework_statuses g)"
proof -
  assume known: "frameworks cm n = Some f"
  let ?rs = "map (assess_requirement io) (requirements f)"
  let ?f1 = "f\<lparr>requirements := ?rs, fw_status := overall_status ?rs, lastAssessment := now io\<rparr>"
  let ?cm1 = "fst (fst (assessCompliance io cm am n))"
  let ?am1 = "snd (fst (assessCompliance io cm am n))"
  let ?rs2 = "map (assess_requirement io') ?rs"
  let ?f2 = "?f1\<lparr>requirements := ?rs2, fw_status := overall_status ?rs2, lastAssessment := now io'\<rparr>"
  have first: "frameworks ?cm1 n = Some ?f1"
    by (simp add: assessCompliance_frameworks [OF known])
  have second: "frameworks (fst (fst (assessCompliance io' ?cm1 ?am1 n))) n = Some ?f2"
    by (simp add: assessCompliance_frameworks [OF first])
  have same_req: "map req_status ?rs2 = map req_status ?rs"
    by (rule statuses_reassessed)
  then have same_all: "overall_status ?rs2 = overall_status ?rs"
    by (rule overall_status_cong)
  have st1: "statuses_of ?cm1 n = Some (overall_status ?rs, map req_status ?rs)"
    by (simp add: statuses_of_def first)
  have st2: "statuses_of (fst (fst (assessCompliance io' ?cm1 ?am1 n))) n
               = Some (overall_status ?rs2, map req_status ?rs2)"
    by (simp add: statuses_of_def second)
  have ret: "framework_statuses g' = framework_statuses g"
    if "snd (assessCompliance io cm am n) = Inr g" "snd (assessCompliance io' ?cm1 ?am1 n) = Inr g'" for g g'
  proof -
    have "g = ?f1" using known that(1) by (rule assessCompliance_returned)
    moreover have "g' = ?f2" using assessCompliance_returned [OF first that(2)] by simp
    ultimately show ?thesis using same_req same_all by (simp add: framework_statuses_def)
  qed
  from st1 st2 same_req same_all ret show ?thesis by simp
qed

text \<open>
  \<open>SOC2\<close> is assessed twice. Its requirement \<open>CC6.2\<close> has none of the evidence of
  its category, so the framework is non-compliant, after the first call and after
  the second.
\<close>

lemma assess_SOC2:
  "statuses_of (fst (fst (assessCompliance env_ok (new_ComplianceManager 0) example_manager ''SOC2''))) ''SOC2''
     = Some (FW_NON_COMPLIANT, [COMPLIANT, NON_COMPLIANT, COMPLIANT])"
  by (simp add: statuses_of_def assessCompliance_frameworks new_ComplianceManager_def
        initializeComplianceFrameworks_def soc2Framework_def requirement_def assess_requirement_def
        overall_status_def checkRequirement_def checkAccessControlCompliance_def
        checkAuditCompliance_def)

theorem assessCompliance_idempotent_witness:
  "frameworks (new_ComplianceManager 0) ''SOC2'' = Some (soc2Framework 0)
   \<and> statuses_of (fst (fst (assessCompliance env_ok (new_ComplianceManager 0) example_manager ''SOC2''))) ''SOC2''
       = Some (FW_NON_COMPLIANT, [COMPLIANT, NON_COMPLIANT, COMPLIANT])
   \<and> statuses_of (fst (fst (assessCompliance env_later
         (fst (fst (assessCompliance env_ok (new_ComplianceManager 0) example_manager ''SOC2'')))
         (snd (fst (assessCompliance env_ok (new_ComplianceManager 0) example_manager ''SOC2''))) ''SOC2''))) ''SOC2''
       = Some (FW_NON_COMPLIANT, [COMPLIANT, NON_COMPLIANT, COMPLIANT])"
proof -
  have a: "frameworks (new_ComplianceManager 0) ''SOC2'' = Some (soc2Framework 0)"
    by (simp add: new_ComplianceManager_def initializeComplianceFrameworks_def)
  from assessCompliance_idempotent [OF a, where io = env_ok and io' = env_later and am = example_manager]
       a assess_SOC2
  show ?thesis by simp
qed

section \<open>Retention\<close>

text \<open>
  C9. When no retention policy has the data type, \<open>scheduleDataDeletion\<close> returns
  \<open>false\<close> and the audit manager, with all its tables, is the one it was given.
\<close>

theorem scheduleDataDeletion_no_policy:
  "dt \<notin> set (map dataType (retentionPolicies cm)) \<Longrightarrow>
   scheduleDataDeletion io cm am dt = (am, Inr False)"
proof -
  assume "dt \<notin> set (map dataType (retentionPolicies cm))"
  then have "\<forall>p \<in> set (retentionPolicies cm). dataType p \<noteq> dt"
    by auto
  then have "getDataRetentionPolicy cm dt = None"
    by (simp add: getDataRetentionPolicy_def find_None_iff)
  then show ?thesis by (simp add: scheduleDataDeletion_def)
qed

text \<open>None of the four policies of the constructor is for \<open>game_saves\<close>.\<close>

theorem scheduleDataDeletion_no_policy_witness:
  "''game_saves'' \<notin> set (map dataType (retentionPolicies (new_ComplianceManager 0)))
   \<and> scheduleDataDeletion env_ok (new_ComplianceManager 0) example_manager ''game_saves''
       = (example_manager, Inr False)"
proof -
  have a: "''game_saves'' \<notin> set (map dataType (retentionPolicies (new_ComplianceManager 0)))"
    by (simp add: new_ComplianceManager_def initializeRetentionPolicies_def)
  from scheduleDataDeletion_no_policy [OF a, of env_ok example_manager] a show ?thesis by simp
qed

text \<open>With a policy, the call returns \<open>true\<close> and one audit event is written.\<close>

lemma scheduleDataDeletion_audit_logs:
  "snd (scheduleDataDeletion env_ok (new_ComplianceManager 0) example_manager ''audit_logs'') = Inr True
   \<and> map ae_metadata (audit_events (db (fst
         (scheduleDataDeletion env_ok (new_ComplianceManager 0) example_manager ''audit_logs''))))
       = [Some [(''deletionDate'', JDate (1000 + 2555 * 86400000)), (''retentionPeriod'', JNumber 2555),
                (''deletionMethod'', JString ''SECURE_DELETE'')]]"
  by (simp add: scheduleDataDeletion_def getDataRetentionPolicy_def new_ComplianceManager_def
        initializeRetentionPolicies_def returning_def logAuditEvent_def insert_audit_event_def
        auditEvent_of_def env_ok_def example_manager_def empty_db_def)

section \<open>Password verification\<close>

lemma hex_value_digit: "n < 16 \<Longrightarrow> hex_value (hex_digit n) = Some n"
  by (auto simp add: hex_value_def hex_digit_def Let_def)

lemma from_hex_pair:
  "Buffer_from_hex (hex_digit (unat b div 16) # hex_digit (unat b mod 16) # rest)
     = b # Buffer_from_hex rest"
proof -
  have "unat b < 2 ^ LENGTH(8)" by (rule unsigned_less)
  then have "unat b < 256" by simp
  then have "unat b div 16 < 16" by simp
  moreover have "unat b mod 16 < 16" by simp
  ultimately show ?thesis by (simp add: hex_value_digit)
qed

lemma toString_hex_Cons:
  "toString_hex (b # bs) = hex_digit (unat b div 16) # hex_digit (unat b mod 16) # toString_hex bs"
  by (simp add: toString_hex_def)

text \<open>Decoding the hex rendering of a buffer gives the buffer back.\<close>

lemma from_hex_to_hex: "Buffer_from_hex (toString_hex bs) = bs"
proof (induction bs)
  case Nil
  show ?case by (simp add: toString_hex_def)
next
  case (Cons b bs)
  then show ?case by (simp only: toString_hex_Cons from_hex_pair)
qed

text \<open>
  C10. The key derivation is asked for 64 bytes and gives 64. Then
  \<open>verifyPassword(p, h, s)\<close> returns a boolean exactly when the stored hash \<open>h\<close>
  decodes to 64 bytes; for an \<open>h\<close> that decodes to any other length,
  \<open>timingSafeEqual\<close> throws its \<open>RangeError\<close> and no \<open>false\<close> is returned.
\<close>

theorem verifyPassword_needs_64_bytes:
  assumes "\<forall>p s. length (pbkdf2Sync p s 100000 64 ''sha512'') = 64"
  shows "((\<exists>b. verifyPassword pbkdf2Sync rnd p h s = Inr b) \<longleftrightarrow> length (Buffer_from_hex h) = 64)
       \<and> (length (Buffer_from_hex h) \<noteq> 64 \<longrightarrow>
            verifyPassword pbkdf2Sync rnd p h s
              = Inl (RangeError ''Input buffers must have the same byte length''))"
  using assms
  by (simp add: verifyPassword_def hashPassword_def timingSafeEqual_def Let_def from_hex_to_hex)

text \<open>
  With a derivation that returns zero bytes: the two-byte hash \<open>abcd\<close> makes the
  comparison throw, and the hash that \<open>hashPassword\<close> produced is compared.
\<close>

theorem verifyPassword_needs_64_bytes_witness:
  "(\<forall>p s. length (zero_kdf p s 100000 64 ''sha512'') = 64)
   \<and> length (Buffer_from_hex ''abcd'') = 2
   \<and> verifyPassword zero_kdf [] ''pw'' ''abcd'' ''salt''
       = Inl (RangeError ''Input buffers must have the same byte length'')
   \<and> (\<exists>b. verifyPassword zero_kdf [] ''pw'' (hash (hashPassword zero_kdf [] ''pw'' (Some ''salt''))) ''salt''
            = Inr b)"
proof -
  have a: "\<forall>p s. length (zero_kdf p s 100000 64 ''sha512'') = 64"
    by (simp add: zero_kdf_def)
  have b: "length (Buffer_from_hex ''abcd'') = 2"
    by (simp add: hex_value_def)
  have c: "length (Buffer_from_hex (hash (hashPassword zero_kdf [] ''pw'' (Some ''salt'')))) = 64"
    by (simp add: hashPassword_def from_hex_to_hex zero_kdf_def)
  from verifyPassword_needs_64_bytes
         [where pbkdf2Sync = zero_kdf and rnd = "[]" and p = "''pw''" and h = "''abcd''" and s = "''salt''"]
       verifyPassword_needs_64_bytes
         [where pbkdf2Sync = zero_kdf and rnd = "[]" and p = "''pw''"
            and h = "hash (hashPassword zero_kdf [] ''pw'' (Some ''salt''))" and s = "''salt''"]
       a b c
  show ?thesis by simp
qed

section \<open>Encryption\<close>









end
